theory Spec2Isabelle
  imports Complex_Main "HOL-Library.Word"
begin

section \<open>PSL.packet_handler: the link layer of the PSLab\<close>

text \<open>
  A shallow embedding of \<^verbatim>\<open>src/PSL/packet_handler.py\<close>, class \<^verbatim>\<open>Handler\<close>.
  Every method takes the pair of the handler's attributes and the world outside
  the process, and returns its outcome together with the pair as the method
  left it: an exception is an \<open>Inl\<close> outcome, and the state beside it is the
  state at the \<^verbatim>\<open>raise\<close>.
\<close>

subsection \<open>Values, errors and the primitive codec\<close>

type_synonym byte = "8 word"

text \<open>
  The exceptions of the module: \<^verbatim>\<open>ValueError\<close> of \<^verbatim>\<open>_get_integer_type\<close>,
  \<^verbatim>\<open>AttributeError\<close> of a lookup of an attribute that is not bound,
  \<^verbatim>\<open>struct.error\<close> of a packer, the codec errors of \<^verbatim>\<open>str.encode\<close> and
  \<^verbatim>\<open>bytes.decode\<close>, \<^verbatim>\<open>RuntimeError\<close> of the flash verification, and the two
  uses of \<^verbatim>\<open>serial.SerialException\<close>: a port that cannot be opened
  (\<open>TransportError\<close>) and \<^verbatim>\<open>SerialException("Device not found.")\<close>
  (\<open>DeviceNotFound\<close>).
\<close>

datatype error =
    ValueError
  | AttributeError
  | StructError
  | UnicodeEncodeError
  | UnicodeDecodeError
  | TransportError
  | DeviceNotFound
  | RuntimeError

text \<open>The argument of \<^verbatim>\<open>_send\<close>: \<^verbatim>\<open>Union[bytes, int]\<close>.\<close>

datatype val = Bytes "byte list" | Num int

text \<open>
  Modelled from the spec: the packers \<^verbatim>\<open>CP.Byte\<close>, \<^verbatim>\<open>CP.ShortInt\<close> and
  \<^verbatim>\<open>CP.Integer\<close> of \<^verbatim>\<open>PSL.commands_proto\<close>, which is not among the sources.
  The spec (2, 4.1) has them pack and unpack 1-, 2- and 4-byte unsigned
  little-endian integers; packing a value outside the range of the width and
  unpacking a byte string of another length raise \<^verbatim>\<open>struct.error\<close>.
\<close>

datatype struct = Byte | ShortInt | Integer

fun width :: "struct \<Rightarrow> nat" where
  "width Byte = 1"
| "width ShortInt = 2"
| "width Integer = 4"

fun le_bytes :: "nat \<Rightarrow> int \<Rightarrow> byte list" where
  "le_bytes 0 v = []"
| "le_bytes (Suc n) v = word_of_int (v mod 256) # le_bytes n (v div 256)"

text \<open>\<^verbatim>\<open>int.from_bytes(bytes, byteorder="little", signed=False)\<close>.\<close>

fun from_le :: "byte list \<Rightarrow> int" where
  "from_le [] = 0"
| "from_le (b # bs) = uint b + 256 * from_le bs"

definition pack :: "struct \<Rightarrow> int \<Rightarrow> error + byte list" where
  "pack s v =
     (if 0 \<le> v \<and> v < 256 ^ width s then Inr (le_bytes (width s) v)
      else Inl StructError)"

definition unpack :: "struct \<Rightarrow> byte list \<Rightarrow> error + int" where
  "unpack s bs =
     (if length bs = width s then Inr (from_le bs) else Inl StructError)"

subsection \<open>The handler and the world around it\<close>

text \<open>The attributes of a \<^verbatim>\<open>serial.Serial\<close> object that the module reads or sets.\<close>

record serial =
  port :: "string option"
  baudrate :: int
  timeout :: "rat option"
  is_open :: bool

record handler =
  burst_buffer :: "byte list"
  load_burst :: bool
  input_queue_size :: nat
  version :: string
  interface :: serial

datatype level = INFO | ERROR

text \<open>
  Modelled from the spec: the Transport (the \<^verbatim>\<open>serial\<close> package is not among
  the sources), by its contract in 6 of the spec. Opening an endpoint gives a
  handle or fails; \<^verbatim>\<open>write(bytes)\<close> takes the bytes; \<^verbatim>\<open>read(n)\<close> gives at most
  \<open>n\<close> bytes, fewer on a timeout.

  \<^item> \<open>openable d\<close>: whether endpoint \<open>d\<close> can be opened;
  \<^item> \<open>candidates\<close>: the devices \<^verbatim>\<open>list_ports.grep\<close> yields for the PSLab's
    vendor and product ids, in its order;
  \<^item> \<open>banner d\<close>: the line the peer on \<open>d\<close> answers to the version query, as
    \<^verbatim>\<open>readline().decode("utf-8")\<close> gives it, \<open>None\<close> when the bytes do not decode;
  \<^item> \<open>written\<close>: the payload of every \<^verbatim>\<open>write\<close> call so far, in order;
  \<^item> \<open>requested\<close>: the size asked by every \<^verbatim>\<open>read\<close> call so far, in order;
  \<^item> \<open>incoming\<close>: what the peer and the timeouts make of the coming \<^verbatim>\<open>read\<close>
    calls: the next call gets at most its size from the head entry, and
    nothing once the list is used up;
  \<^item> \<open>logged\<close>: the level of every record given to the module's logger.
\<close>

record env =
  openable :: "string \<Rightarrow> bool"
  candidates :: "string list"
  banner :: "string \<Rightarrow> string option"
  written :: "byte list list"
  requested :: "nat list"
  incoming :: "byte list list"
  logged :: "level list"

type_synonym 'a outcome = "(error + 'a) \<times> handler \<times> env"

definition iwrite :: "byte list \<Rightarrow> env \<Rightarrow> env" where
  "iwrite bs e = e\<lparr>written := written e @ [bs]\<rparr>"

definition iread :: "nat \<Rightarrow> env \<Rightarrow> byte list \<times> env" where
  "iread n e =
     (case incoming e of
        [] \<Rightarrow> ([], e\<lparr>requested := requested e @ [n]\<rparr>)
      | c # cs \<Rightarrow> (take n c, e\<lparr>requested := requested e @ [n], incoming := cs\<rparr>))"

definition logger :: "level \<Rightarrow> env \<Rightarrow> env" where
  "logger l e = e\<lparr>logged := logged e @ [l]\<rparr>"

subsection \<open>Acknowledgment, send and receive\<close>

text \<open>
  \<^verbatim>\<open>get_ack\<close>: outside burst mode one byte is read and unpacked, and any
  exception of the unpacking is logged and answered by 3; in burst mode the
  counter is incremented and 1 returned.
\<close>

definition get_ack :: "handler \<times> env \<Rightarrow> int outcome" where
  "get_ack s =
     (case s of (h, e) \<Rightarrow>
        if \<not> load_burst h then
          (case iread 1 e of (response, e1) \<Rightarrow>
             (case unpack Byte response of
                Inr v \<Rightarrow> (Inr v, h, e1)
              | Inl err \<Rightarrow> (Inr 3, h, logger ERROR e1)))
        else (Inr 1, h\<lparr>input_queue_size := input_queue_size h + 1\<rparr>, e))"

definition priv_get_integer_type :: "int \<Rightarrow> error + struct" where
  "priv_get_integer_type sz =
     (if sz = 1 then Inr Byte
      else if sz = 2 then Inr ShortInt
      else if sz = 4 then Inr Integer
      else Inl ValueError)"

text \<open>
  The width \<^verbatim>\<open>_send\<close> takes when no size is given:
  \<^verbatim>\<open>2 ** ((value > 0xFF) + (value > 0xFFFF))\<close>.
\<close>

definition auto_size :: "int \<Rightarrow> int" where
  "auto_size v = 2 ^ (of_bool (v > 0xFF) + of_bool (v > 0xFFFF))"

text \<open>
  \<^verbatim>\<open>_send\<close> (a leading underscore is not a name in Isabelle, hence \<open>priv_\<close>).
  \<open>packet_of\<close> is its first statement, which makes the packet or raises;
  the second statement appends the packet to the burst buffer or writes it.
\<close>

definition packet_of :: "val \<Rightarrow> int option \<Rightarrow> error + byte list" where
  "packet_of v sz =
     (case v of
        Bytes bs \<Rightarrow> Inr bs
      | Num n \<Rightarrow>
          (case priv_get_integer_type
                  (case sz of None \<Rightarrow> auto_size n | Some k \<Rightarrow> k) of
             Inl err \<Rightarrow> Inl err
           | Inr packer \<Rightarrow> pack packer n))"

definition priv_send :: "val \<Rightarrow> int option \<Rightarrow> handler \<times> env \<Rightarrow> unit outcome" where
  "priv_send v sz s =
     (case s of (h, e) \<Rightarrow>
        (case packet_of v sz of
           Inl err \<Rightarrow> (Inl err, h, e)
         | Inr packet \<Rightarrow>
             if load_burst h then
               (Inr (), h\<lparr>burst_buffer := burst_buffer h @ packet\<rparr>, e)
             else (Inr (), h, iwrite packet e)))"

text \<open>\<^verbatim>\<open>_receive\<close>.\<close>

definition priv_receive :: "int \<Rightarrow> handler \<times> env \<Rightarrow> int outcome" where
  "priv_receive sz s =
     (case s of (h, e) \<Rightarrow>
        (case iread (nat sz) e of (received, e1) \<Rightarrow>
           if int (length received) = sz then
             (if sz \<in> {1, 2, 4} then
                (case priv_get_integer_type sz of
                   Inl err \<Rightarrow> (Inl err, h, e1)
                 | Inr unpacker \<Rightarrow>
                     (case unpack unpacker received of
                        Inl err \<Rightarrow> (Inl err, h, e1)
                      | Inr v \<Rightarrow> (Inr v, h, e1)))
              else (Inr (from_le received), h, e1))
           else (Inr (- 1), h, logger ERROR e1)))"

text \<open>\<^verbatim>\<open>send_burst\<close>.\<close>

definition send_burst :: "handler \<times> env \<Rightarrow> int list outcome" where
  "send_burst s =
     (case s of (h, e) \<Rightarrow>
        (let e1 = iwrite (burst_buffer h) e;
             h1 = h\<lparr>burst_buffer := [], load_burst := False\<rparr>
         in case iread (input_queue_size h1) e1 of (acks, e2) \<Rightarrow>
              (Inr (map uint acks), h1\<lparr>input_queue_size := 0\<rparr>, e2)))"

subsection \<open>Connection\<close>

text \<open>
  The command tokens of \<^verbatim>\<open>PSL.commands_proto\<close> that the module sends. Their
  values are no part of the sources; every method that sends one takes the
  table as its first argument.
\<close>

record commands_proto =
  COMMON :: "byte list"
  GET_VERSION :: "byte list"
  FLASH :: "byte list"
  READ_BULK_FLASH :: "byte list"
  WRITE_BULK_FLASH :: "byte list"

text \<open>
  Sequencing: the second step runs on the state the first one left, unless the
  first one raised.
\<close>

definition and_then ::
  "'a outcome \<Rightarrow> ('a \<Rightarrow> handler \<times> env \<Rightarrow> 'b outcome) \<Rightarrow> 'b outcome" where
  "and_then r f = (case r of (Inl err, s) \<Rightarrow> (Inl err, s) | (Inr x, s) \<Rightarrow> f x s)"

text \<open>
  \<^verbatim>\<open>serial.Serial(port=..., baudrate=..., timeout=..., write_timeout=...)\<close>,
  which opens the port when one is given, \<^verbatim>\<open>Serial.open\<close> and \<^verbatim>\<open>Serial.close\<close>.
\<close>

definition Serial :: "string option \<Rightarrow> int \<Rightarrow> rat option \<Rightarrow> env \<Rightarrow> error + serial" where
  "Serial p b t e =
     (case p of
        None \<Rightarrow> Inr \<lparr>port = None, baudrate = b, timeout = t, is_open = False\<rparr>
      | Some d \<Rightarrow>
          if openable e d
          then Inr \<lparr>port = Some d, baudrate = b, timeout = t, is_open = True\<rparr>
          else Inl TransportError)"

definition serial_open :: "serial \<Rightarrow> env \<Rightarrow> error + serial" where
  "serial_open ser e =
     (case port ser of
        None \<Rightarrow> Inl TransportError
      | Some d \<Rightarrow> if openable e d then Inr (ser\<lparr>is_open := True\<rparr>) else Inl TransportError)"

definition close :: "serial \<Rightarrow> serial" where
  "close ser = ser\<lparr>is_open := False\<rparr>"

text \<open>\<^verbatim>\<open>self.interface.readline().decode("utf-8")\<close>; no line comes on a handle without a port.\<close>

definition readline_decode :: "serial \<Rightarrow> env \<Rightarrow> error + string" where
  "readline_decode ser e =
     (case port ser of
        None \<Rightarrow> Inr []
      | Some d \<Rightarrow> (case banner e d of None \<Rightarrow> Inl UnicodeDecodeError | Some l \<Rightarrow> Inr l))"

definition get_version :: "commands_proto \<Rightarrow> handler \<times> env \<Rightarrow> string outcome" where
  "get_version cp s =
     (case s of (h, e) \<Rightarrow>
        (let e1 = iwrite (COMMON cp) e;
             e2 = iwrite (GET_VERSION cp) e1
         in case readline_decode (interface h) e2 of
              Inl err \<Rightarrow> (Inl err, h, e2)
            | Inr l \<Rightarrow> (Inr l, h, e2)))"

text \<open>Python's \<^verbatim>\<open>expected in version\<close> on strings.\<close>

fun contains :: "string \<Rightarrow> string \<Rightarrow> bool" where
  "contains sub [] = (sub = [])"
| "contains sub (c # cs) = (take (length sub) (c # cs) = sub \<or> contains sub cs)"

text \<open>\<^verbatim>\<open>any(expected in version for expected in ["PSLab", "CSpark"])\<close>.\<close>

definition recognized :: "string \<Rightarrow> bool" where
  "recognized ver = list_ex (\<lambda>expected. contains expected ver) [''PSLab'', ''CSpark'']"

text \<open>
  The \<^verbatim>\<open>for ... else\<close> of \<^verbatim>\<open>connect\<close> over the candidate ports: the version of
  the first port that answers with a marker, the empty string when the loop
  ends without \<^verbatim>\<open>break\<close>.
\<close>

fun scan :: "commands_proto \<Rightarrow> string list \<Rightarrow> handler \<times> env \<Rightarrow> string outcome" where
  "scan cp [] s = (Inr [], s)"
| "scan cp (d # ds) s =
     (case s of (h, e) \<Rightarrow>
        (let h1 = h\<lparr>interface := (interface h)\<lparr>port := Some d\<rparr>\<rparr>
         in case serial_open (interface h1) e of
              Inl err \<Rightarrow> (Inl err, h1, e)
            | Inr ser \<Rightarrow>
                (case get_version cp (h1\<lparr>interface := ser\<rparr>, e) of
                   (Inl err, s1) \<Rightarrow> (Inl err, s1)
                 | (Inr ver, s1) \<Rightarrow>
                     if recognized ver then (Inr ver, s1) else scan cp ds s1)))"

definition connect ::
  "commands_proto \<Rightarrow> string option \<Rightarrow> int \<Rightarrow> rat \<Rightarrow> handler \<times> env \<Rightarrow> unit outcome" where
  "connect cp p b t s =
     (case s of (h, e) \<Rightarrow>
        (case Serial p b (Some t) e of
           Inl err \<Rightarrow> (Inl err, h, e)
         | Inr ser \<Rightarrow>
             and_then
               (if is_open ser then get_version cp (h\<lparr>interface := ser\<rparr>, e)
                else scan cp (candidates e) (h\<lparr>interface := ser\<rparr>, e))
               (\<lambda>ver s2. case s2 of (h2, e2) \<Rightarrow>
                  if recognized ver then
                    (Inr (), h2\<lparr>version := ver\<rparr>, logger INFO e2)
                  else
                    (Inl DeviceNotFound,
                     h2\<lparr>interface := close (interface h2), version := []\<rparr>, e2))))"

definition disconnect :: "handler \<times> env \<Rightarrow> unit outcome" where
  "disconnect s = (case s of (h, e) \<Rightarrow> (Inr (), h\<lparr>interface := close (interface h)\<rparr>, e))"

text \<open>
  \<^verbatim>\<open>reconnect\<close>. Its last statement is \<^verbatim>\<open>self.connect()\<close>, with no argument:
  \<^verbatim>\<open>connect\<close> runs with its defaults, no port, 1000000 baud and 1.0 s.
\<close>

definition reconnect ::
  "commands_proto \<Rightarrow> string option \<Rightarrow> int option \<Rightarrow> rat option \<Rightarrow> handler \<times> env
     \<Rightarrow> unit outcome" where
  "reconnect cp p b t s =
     and_then (disconnect s)
       (\<lambda>_ s1. case s1 of (h1, e1) \<Rightarrow>
          (let b1 = (case b of None \<Rightarrow> baudrate (interface h1) | Some x \<Rightarrow> x);
               p1 = (case p of None \<Rightarrow> port (interface h1) | Some d \<Rightarrow> Some d);
               t1 = (case t of None \<Rightarrow> timeout (interface h1) | Some x \<Rightarrow> Some x)
           in case Serial p1 b1 t1 e1 of
                Inl err \<Rightarrow> (Inl err, h1, e1)
              | Inr ser \<Rightarrow> connect cp None 1000000 1 (h1\<lparr>interface := ser\<rparr>, e1)))"

text \<open>
  \<^verbatim>\<open>__init__\<close>: the attributes as the constructor sets them before it connects
  (\<^verbatim>\<open>serial.Serial()\<close> has no port, 9600 baud and no timeout).
\<close>

definition new_handler :: handler where
  "new_handler =
     \<lparr>burst_buffer = [], load_burst = False, input_queue_size = 0, version = [],
      interface = \<lparr>port = None, baudrate = 9600, timeout = None, is_open = False\<rparr>\<rparr>"

definition init ::
  "commands_proto \<Rightarrow> string option \<Rightarrow> int \<Rightarrow> rat \<Rightarrow> env \<Rightarrow> unit outcome" where
  "init cp p b t e = connect cp p b t (new_handler, e)"

subsection \<open>Bulk flash\<close>

text \<open>
  The flash methods call \<^verbatim>\<open>self.send(...)\<close>. The class defines \<^verbatim>\<open>_send\<close>, and its
  constructor binds \<^verbatim>\<open>send_byte\<close>, \<^verbatim>\<open>send_int\<close>, \<^verbatim>\<open>__sendByte__\<close> and
  \<^verbatim>\<open>__sendInt__\<close>; nothing binds an attribute \<^verbatim>\<open>send\<close>, and the class has no base
  class and no \<^verbatim>\<open>__getattr__\<close>. The lookup of \<^verbatim>\<open>self.send\<close> therefore raises
  \<^verbatim>\<open>AttributeError\<close>, whatever the arguments are, and changes nothing.
\<close>

definition send :: "val \<Rightarrow> int option \<Rightarrow> handler \<times> env \<Rightarrow> unit outcome" where
  "send v sz s = (Inl AttributeError, s)"

text \<open>Python's \<^verbatim>\<open>ss[:n]\<close>.\<close>

definition slice_to :: "int \<Rightarrow> 'a list \<Rightarrow> 'a list" where
  "slice_to n xs = (if 0 \<le> n then take (nat n) xs else take (length xs - nat (- n)) xs)"

text \<open>\<^verbatim>\<open>read_bulk_flash\<close>, statement by statement.\<close>

definition read_bulk_flash ::
  "commands_proto \<Rightarrow> int \<Rightarrow> int \<Rightarrow> handler \<times> env \<Rightarrow> byte list outcome" where
  "read_bulk_flash cp page numbytes s =
     and_then (send (Bytes (FLASH cp)) None s) (\<lambda>_ s1.
     and_then (send (Bytes (READ_BULK_FLASH cp)) None s1) (\<lambda>_ s2.
     (let bytes_to_read = numbytes + numbytes mod 2 in
     and_then (send (Num bytes_to_read) (Some 2) s2) (\<lambda>_ s3.
     and_then (send (Num page) None s3) (\<lambda>_ s4.
     (case s4 of (h4, e4) \<Rightarrow>
     (case iread (nat bytes_to_read) e4 of (ss, e5) \<Rightarrow>
     and_then (get_ack (h4, e5)) (\<lambda>_ s6.
     (case s6 of (h6, e6) \<Rightarrow>
        (Inr (slice_to numbytes ss), h6, logger INFO e6))))))))))"

text \<open>
  The \<^verbatim>\<open>data\<close> of \<^verbatim>\<open>write_bulk_flash\<close>: \<^verbatim>\<open>Union[bytes, str]\<close>, a \<^verbatim>\<open>str\<close> being its
  code points, and \<^verbatim>\<open>str.encode("utf-8")\<close>, which refuses a surrogate.
\<close>

datatype data = BytesData "byte list" | StrData "nat list"

definition utf8 :: "nat \<Rightarrow> error + byte list" where
  "utf8 c =
     (if c < 0x80 then Inr [of_nat c]
      else if c < 0x800 then Inr [of_nat (0xC0 + c div 64), of_nat (0x80 + c mod 64)]
      else if 0xD800 \<le> c \<and> c \<le> 0xDFFF then Inl UnicodeEncodeError
      else if c < 0x10000 then
        Inr [of_nat (0xE0 + c div 4096), of_nat (0x80 + c div 64 mod 64),
             of_nat (0x80 + c mod 64)]
      else if c < 0x110000 then
        Inr [of_nat (0xF0 + c div 262144), of_nat (0x80 + c div 4096 mod 64),
             of_nat (0x80 + c div 64 mod 64), of_nat (0x80 + c mod 64)]
      else Inl UnicodeEncodeError)"

fun encode :: "nat list \<Rightarrow> error + byte list" where
  "encode [] = Inr []"
| "encode (c # cs) =
     (case utf8 c of
        Inl err \<Rightarrow> Inl err
      | Inr bs \<Rightarrow> (case encode cs of Inl err \<Rightarrow> Inl err | Inr rest \<Rightarrow> Inr (bs @ rest)))"

text \<open>
  \<^verbatim>\<open>write_bulk_flash\<close>, statement by statement. The name \<^verbatim>\<open>data\<close> is assigned the
  padded bytes before the first \<^verbatim>\<open>self.send\<close>, so every later \<^verbatim>\<open>data\<close> of the
  source is the padded \<open>d\<close>.
\<close>

definition write_bulk_flash ::
  "commands_proto \<Rightarrow> int \<Rightarrow> data \<Rightarrow> handler \<times> env \<Rightarrow> unit outcome" where
  "write_bulk_flash cp page dat s =
     (case (case dat of BytesData bs \<Rightarrow> Inr bs | StrData cs \<Rightarrow> encode cs) of
        Inl err \<Rightarrow> (Inl err, s)
      | Inr d0 \<Rightarrow>
     (let d = d0 @ replicate (length d0 mod 2) 0 in
     (case s of (h, e) \<Rightarrow>
     and_then (send (Bytes (FLASH cp)) None (h, logger INFO e)) (\<lambda>_ s1.
     and_then (send (Bytes (WRITE_BULK_FLASH cp)) None s1) (\<lambda>_ s2.
     and_then (send (Num (int (length d))) (Some 2) s2) (\<lambda>_ s3.
     and_then (send (Num page) None s3) (\<lambda>_ s4.
     (case s4 of (h4, e4) \<Rightarrow>
     and_then (get_ack (h4, iwrite d e4)) (\<lambda>_ s5.
     and_then (read_bulk_flash cp page (int (length d)) s5) (\<lambda>readback s6.
        if readback \<noteq> d then (Inl RuntimeError, s6) else (Inr (), s6)))))))))))"

subsection \<open>Sequences of calls\<close>

text \<open>
  What a caller can do to the burst state: call \<^verbatim>\<open>_send\<close>, \<^verbatim>\<open>get_ack\<close> or
  \<^verbatim>\<open>send_burst\<close>, or assign the public attribute \<^verbatim>\<open>load_burst\<close>. A call that
  raises leaves the state it had reached.
\<close>

datatype call = Send val "int option" | GetAck | SendBurst | SetLoadBurst bool

fun step :: "call \<Rightarrow> handler \<times> env \<Rightarrow> handler \<times> env" where
  "step (Send v sz) s = snd (priv_send v sz s)"
| "step GetAck s = snd (get_ack s)"
| "step SendBurst s = snd (send_burst s)"
| "step (SetLoadBurst b) s = (case s of (h, e) \<Rightarrow> (h\<lparr>load_burst := b\<rparr>, e))"

definition run :: "call list \<Rightarrow> handler \<times> env \<Rightarrow> handler \<times> env" where
  "run cs s = fold step cs s"

text \<open>
  What a call leaves in the burst buffer when burst mode is on (nothing when it
  raises), the calls that burst mode defers, and the entry of \<open>incoming\<close> that
  the next \<^verbatim>\<open>read\<close> draws from.
\<close>

fun payload :: "call \<Rightarrow> byte list" where
  "payload (Send v sz) = (case packet_of v sz of Inl err \<Rightarrow> [] | Inr packet \<Rightarrow> packet)"
| "payload GetAck = []"
| "payload SendBurst = []"
| "payload (SetLoadBurst b) = []"

fun deferred :: "call \<Rightarrow> bool" where
  "deferred (Send v sz) = True"
| "deferred GetAck = True"
| "deferred SendBurst = False"
| "deferred (SetLoadBurst b) = False"

definition chunk :: "nat \<Rightarrow> env \<Rightarrow> byte list" where
  "chunk k e = (if k < length (incoming e) then incoming e ! k else [])"

text \<open>
  The burst invariant of the spec (3): outside burst mode the buffer is empty
  and the counter zero.
\<close>

definition burst_inv :: "handler \<Rightarrow> bool" where
  "burst_inv h = (load_burst h \<or> (burst_buffer h = [] \<and> input_queue_size h = 0))"

subsection \<open>Sample inputs\<close>

text \<open>
  A command table, a world with one PSLab on \<^verbatim>\<open>/dev/ttyACM0\<close> and a silent
  peer, a handler in burst mode and a connected one, for the concrete runs
  below.
\<close>

definition cp0 :: commands_proto where
  "cp0 = \<lparr>COMMON = [11], GET_VERSION = [5], FLASH = [1], READ_BULK_FLASH = [4],
          WRITE_BULK_FLASH = [3]\<rparr>"

definition quiet :: env where
  "quiet = \<lparr>openable = (\<lambda>d. True), candidates = [''/dev/ttyACM0''],
            banner = (\<lambda>d. Some ''PSLab V5''), written = [], requested = [],
            incoming = [], logged = []\<rparr>"

definition answering :: "byte list list \<Rightarrow> env" where
  "answering cs = quiet\<lparr>incoming := cs\<rparr>"

definition bursting :: handler where
  "bursting = new_handler\<lparr>load_burst := True\<rparr>"

text \<open>The handler as \<^verbatim>\<open>Handler("/dev/ttyACM0")\<close> leaves it in that world: connected.\<close>

definition connected :: handler where
  "connected =
     new_handler\<lparr>version := ''PSLab V5'',
       interface := \<lparr>port = Some ''/dev/ttyACM0'', baudrate = 1000000, timeout = Some 1,
                     is_open = True\<rparr>\<rparr>"

section \<open>Properties\<close>

subsection \<open>The codec\<close>

lemma length_le_bytes: "length (le_bytes n v) = n"
  by (induction n arbitrary: v) auto

lemma from_le_le_bytes: "0 \<le> v \<Longrightarrow> from_le (le_bytes n v) = v mod 256 ^ n"
proof (induction n arbitrary: v)
  case 0
  then show ?case by simp
next
  case (Suc n)
  have "uint (word_of_int (v mod 256) :: byte) = v mod 256"
    by (simp add: uint_word_of_int)
  moreover have "from_le (le_bytes n (v div 256)) = (v div 256) mod 256 ^ n"
    using Suc.IH [of "v div 256"] Suc.prems by (simp add: pos_imp_zdiv_nonneg_iff)
  ultimately show ?case
    by (simp add: zmod_zmult2_eq)
qed

lemma packet_of_auto:
  assumes "0 \<le> v" "v < 2 ^ 32"
  shows "packet_of (Num v) None = Inr (le_bytes (nat (auto_size v)) v)"
  using assms by (auto simp: packet_of_def auto_size_def priv_get_integer_type_def pack_def)

subsection \<open>Sending\<close>

text \<open>
  C8. For every non-negative value sent without a size, the width \<^verbatim>\<open>_send\<close>
  takes is one of 1, 2 and 4, it is at most every width of the three that can
  hold the value, and it holds the value whenever one of them does. A value
  below \<open>2 ^ 32\<close> is packed into exactly that many bytes, which read back as the
  value, and the packet is what \<^verbatim>\<open>_send\<close> buffers or writes. \<^verbatim>\<open>send(5)\<close> packs
  one byte, \<^verbatim>\<open>send(300)\<close> two and \<^verbatim>\<open>send(70000)\<close> four.
\<close>

theorem auto_size_smallest_width:
  assumes "0 \<le> v"
  shows "auto_size v \<in> {1, 2, 4}
    \<and> (\<forall>w \<in> {1, 2, 4}. v < 256 ^ nat w \<longrightarrow> auto_size v \<le> w \<and> v < 256 ^ nat (auto_size v))
    \<and> (v < 2 ^ 32 \<longrightarrow>
         (\<exists>packet. packet_of (Num v) None = Inr packet
            \<and> int (length packet) = auto_size v \<and> from_le packet = v
            \<and> priv_send (Num v) None (h, e) =
                (if load_burst h then (Inr (), h\<lparr>burst_buffer := burst_buffer h @ packet\<rparr>, e)
                 else (Inr (), h, iwrite packet e))))
    \<and> packet_of (Num 5) None = Inr [5]
    \<and> packet_of (Num 300) None = Inr [44, 1]
    \<and> packet_of (Num 70000) None = Inr [112, 17, 1, 0]"
proof -
  have a: "auto_size v \<in> {1, 2, 4}"
    by (simp add: auto_size_def)
  have b: "\<forall>w \<in> {1, 2, 4}. v < 256 ^ nat w \<longrightarrow> auto_size v \<le> w \<and> v < 256 ^ nat (auto_size v)"
    by (auto simp: auto_size_def)
  have c: "v < 2 ^ 32 \<longrightarrow>
         (\<exists>packet. packet_of (Num v) None = Inr packet
            \<and> int (length packet) = auto_size v \<and> from_le packet = v
            \<and> priv_send (Num v) None (h, e) =
                (if load_burst h then (Inr (), h\<lparr>burst_buffer := burst_buffer h @ packet\<rparr>, e)
                 else (Inr (), h, iwrite packet e)))"
  proof
    assume lt: "v < 2 ^ 32"
    let ?p = "le_bytes (nat (auto_size v)) v"
    have p: "packet_of (Num v) None = Inr ?p"
      using assms lt by (rule packet_of_auto)
    have l: "int (length ?p) = auto_size v"
      using a by (auto simp: length_le_bytes)
    have "v < 256 ^ nat (auto_size v)"
      using lt by (auto simp: auto_size_def)
    then have r: "from_le ?p = v"
      using assms by (simp add: from_le_le_bytes)
    have s: "priv_send (Num v) None (h, e) =
                (if load_burst h then (Inr (), h\<lparr>burst_buffer := burst_buffer h @ ?p\<rparr>, e)
                 else (Inr (), h, iwrite ?p e))"
      by (simp add: priv_send_def p)
    from p l r s show "\<exists>packet. packet_of (Num v) None = Inr packet
            \<and> int (length packet) = auto_size v \<and> from_le packet = v
            \<and> priv_send (Num v) None (h, e) =
                (if load_burst h then (Inr (), h\<lparr>burst_buffer := burst_buffer h @ packet\<rparr>, e)
                 else (Inr (), h, iwrite packet e))"
      by blast
  qed
  have d: "packet_of (Num 5) None = Inr [5]"
    by (simp add: packet_of_def auto_size_def priv_get_integer_type_def pack_def)
  have e: "packet_of (Num 300) None = Inr [44, 1]"
    by (simp add: packet_of_def auto_size_def priv_get_integer_type_def pack_def numeral_2_eq_2)
  have f: "packet_of (Num 70000) None = Inr [112, 17, 1, 0]"
    by (simp add: packet_of_def auto_size_def priv_get_integer_type_def pack_def eval_nat_numeral)
  from a b c d e f show ?thesis by blast
qed

theorem auto_size_smallest_width_witness:
  "(0::int) \<le> 300 \<and> (300::int) < 2 ^ 32 \<and> auto_size 300 = 2
   \<and> \<not> (300::int) < 256 ^ nat 1 \<and> (300::int) < 256 ^ nat 2
   \<and> priv_send (Num 300) None (new_handler, quiet) = (Inr (), new_handler, iwrite [44, 1] quiet)"
  using auto_size_smallest_width [of 300 new_handler quiet]
  by (simp add: auto_size_def new_handler_def priv_send_def)

text \<open>
  C10. For every value and every explicit size of 1, 2 and 4 bytes that cannot
  hold the value as an unsigned integer, \<^verbatim>\<open>_send\<close> raises the packer's error, and
  the handler (its burst buffer with it) and the transport are as they were:
  nothing is truncated, buffered or written.
\<close>

theorem explicit_size_too_small_raises:
  assumes "sz \<in> {1, 2, 4}" and "v < 0 \<or> 256 ^ nat sz \<le> v"
  shows "priv_send (Num v) (Some sz) (h, e) = (Inl StructError, h, e)"
  using assms by (auto simp: priv_send_def packet_of_def priv_get_integer_type_def pack_def)

theorem explicit_size_too_small_raises_witness:
  "(1::int) \<in> {1, 2, 4} \<and> (256::int) ^ nat 1 \<le> 300
   \<and> priv_send (Num 300) (Some 1) (bursting, quiet) = (Inl StructError, bursting, quiet)"
  using explicit_size_too_small_raises [of 1 300 bursting quiet] by simp

subsection \<open>Acknowledgment and receive\<close>

text \<open>
  C5, as the code has it. Every value returned by \<^verbatim>\<open>get_ack\<close> is: in burst mode,
  1 (SUCCESS), with the counter incremented and no read; outside burst mode,
  when the read of one byte delivers a byte, the unsigned value of that byte,
  whatever it is, from 0 to 255; and when the read delivers no byte, 3
  (FAILED), with an error logged: a short read during acknowledgment collapses
  to FAILED.
\<close>

theorem get_ack_returns:
  "(load_burst h \<longrightarrow>
      get_ack (h, e) = (Inr 1, h\<lparr>input_queue_size := input_queue_size h + 1\<rparr>, e))
   \<and> (\<not> load_burst h \<and> iread 1 e = (response, e1) \<longrightarrow>
        length response \<le> 1
        \<and> (response = [] \<longrightarrow> get_ack (h, e) = (Inr 3, h, logger ERROR e1))
        \<and> (\<forall>b. response = [b] \<longrightarrow>
              get_ack (h, e) = (Inr (uint b), h, e1) \<and> 0 \<le> uint b \<and> uint b \<le> 255))"
proof -
  have a: "load_burst h \<longrightarrow>
      get_ack (h, e) = (Inr 1, h\<lparr>input_queue_size := input_queue_size h + 1\<rparr>, e)"
    by (simp add: get_ack_def)
  have b: "\<not> load_burst h \<and> iread 1 e = (response, e1) \<longrightarrow>
        length response \<le> 1
        \<and> (response = [] \<longrightarrow> get_ack (h, e) = (Inr 3, h, logger ERROR e1))
        \<and> (\<forall>b. response = [b] \<longrightarrow>
              get_ack (h, e) = (Inr (uint b), h, e1) \<and> 0 \<le> uint b \<and> uint b \<le> 255)"
  proof
    assume r: "\<not> load_burst h \<and> iread 1 e = (response, e1)"
    have l: "length response \<le> 1"
      using r by (auto simp: iread_def split: list.splits)
    have n: "response = [] \<longrightarrow> get_ack (h, e) = (Inr 3, h, logger ERROR e1)"
      using r by (simp add: get_ack_def unpack_def)
    have o: "\<forall>b. response = [b] \<longrightarrow>
              get_ack (h, e) = (Inr (uint b), h, e1) \<and> 0 \<le> uint b \<and> uint b \<le> 255"
    proof (intro allI impI)
      fix b :: byte
      assume "response = [b]"
      moreover have "uint b \<le> 255" using uint_lt2p [of b] by simp
      ultimately show "get_ack (h, e) = (Inr (uint b), h, e1) \<and> 0 \<le> uint b \<and> uint b \<le> 255"
        using r by (simp add: get_ack_def unpack_def)
    qed
    from l n o show "length response \<le> 1
        \<and> (response = [] \<longrightarrow> get_ack (h, e) = (Inr 3, h, logger ERROR e1))
        \<and> (\<forall>b. response = [b] \<longrightarrow>
              get_ack (h, e) = (Inr (uint b), h, e1) \<and> 0 \<le> uint b \<and> uint b \<le> 255)"
      by blast
  qed
  from a b show ?thesis by blast
qed

theorem get_ack_returns_witness:
  "is_open (interface connected) \<and> \<not> load_burst connected
   \<and> iread 1 (answering [[2]]) = ([2], quiet\<lparr>requested := [1]\<rparr>)
   \<and> get_ack (connected, answering [[2]]) = (Inr 2, connected, quiet\<lparr>requested := [1]\<rparr>)
   \<and> iread 1 quiet = ([], quiet\<lparr>requested := [1]\<rparr>)
   \<and> get_ack (connected, quiet)
       = (Inr 3, connected, quiet\<lparr>requested := [1], logged := [ERROR]\<rparr>)
   \<and> load_burst (connected\<lparr>load_burst := True\<rparr>)
   \<and> get_ack (connected\<lparr>load_burst := True\<rparr>, quiet)
       = (Inr 1, connected\<lparr>load_burst := True, input_queue_size := 1\<rparr>, quiet)"
proof -
  have o: "is_open (interface connected)" and i: "\<not> load_burst connected"
    and u: "load_burst (connected\<lparr>load_burst := True\<rparr>)"
    by (simp_all add: connected_def new_handler_def)
  have r2: "iread 1 (answering [[2]]) = ([2], quiet\<lparr>requested := [1]\<rparr>)"
    by (simp add: iread_def answering_def quiet_def)
  have r0: "iread 1 quiet = ([], quiet\<lparr>requested := [1]\<rparr>)"
    by (simp add: iread_def quiet_def)
  have "get_ack (connected, answering [[2]]) = (Inr (uint (2 :: byte)), connected, quiet\<lparr>requested := [1]\<rparr>)"
    using get_ack_returns [of connected "answering [[2]]" "[2]" "quiet\<lparr>requested := [1]\<rparr>"] i r2
    by blast
  then have a: "get_ack (connected, answering [[2]]) = (Inr 2, connected, quiet\<lparr>requested := [1]\<rparr>)"
    by simp
  have "get_ack (connected, quiet) = (Inr 3, connected, logger ERROR (quiet\<lparr>requested := [1]\<rparr>))"
    using get_ack_returns [of connected quiet "[]" "quiet\<lparr>requested := [1]\<rparr>"] i r0
    by blast
  then have b: "get_ack (connected, quiet)
       = (Inr 3, connected, quiet\<lparr>requested := [1], logged := [ERROR]\<rparr>)"
    by (simp add: logger_def quiet_def)
  have "get_ack (connected\<lparr>load_burst := True\<rparr>, quiet)
       = (Inr 1, connected\<lparr>load_burst := True,
            input_queue_size := input_queue_size (connected\<lparr>load_burst := True\<rparr>) + 1\<rparr>, quiet)"
    using get_ack_returns [of "connected\<lparr>load_burst := True\<rparr>" quiet "[]" quiet] u
    by simp
  then have c: "get_ack (connected\<lparr>load_burst := True\<rparr>, quiet)
       = (Inr 1, connected\<lparr>load_burst := True, input_queue_size := 1\<rparr>, quiet)"
    by (simp add: connected_def new_handler_def)
  from o i r2 a r0 b u c show ?thesis by blast
qed

text \<open>
  The claim as the spec states it fails: on a connected handler the peer
  answers 7, and \<^verbatim>\<open>get_ack\<close> returns 7, which is none of the three codes.
\<close>

theorem get_ack_not_a_code:
  "is_open (interface connected) \<and> \<not> load_burst connected
   \<and> fst (get_ack (connected, answering [[7]])) = Inr 7 \<and> (7::int) \<notin> {1, 2, 3}"
  by (simp add: get_ack_def connected_def new_handler_def answering_def quiet_def iread_def
      unpack_def)

text \<open>
  C6. A short read raises nothing. For every size, when the read of
  \<^verbatim>\<open>_receive(size)\<close> delivers fewer than \<open>size\<close> bytes, \<^verbatim>\<open>_receive\<close> logs an
  error and returns -1; when the read of \<^verbatim>\<open>get_ack\<close>, burst mode off, delivers
  fewer than one byte, \<^verbatim>\<open>get_ack\<close> logs an error and returns 3 (FAILED).
\<close>

theorem short_read_swallowed:
  "(iread (nat sz) e = (received, e1) \<and> int (length received) < sz
      \<longrightarrow> priv_receive sz (h, e) = (Inr (- 1), h, logger ERROR e1))
   \<and> (\<not> load_burst h' \<and> iread 1 e' = (response, e2) \<and> length response < 1
      \<longrightarrow> get_ack (h', e') = (Inr 3, h', logger ERROR e2))"
  by (auto simp: priv_receive_def get_ack_def unpack_def)

theorem short_read_swallowed_witness:
  "iread (nat 2) (answering [[9]]) = ([9], quiet\<lparr>requested := [2]\<rparr>)
   \<and> int (length [9::byte]) < 2
   \<and> priv_receive 2 (new_handler, answering [[9]])
       = (Inr (- 1), new_handler, quiet\<lparr>requested := [2], logged := [ERROR]\<rparr>)
   \<and> \<not> load_burst new_handler
   \<and> iread 1 quiet = ([], quiet\<lparr>requested := [1]\<rparr>)
   \<and> length ([] :: byte list) < 1
   \<and> get_ack (new_handler, quiet)
       = (Inr 3, new_handler, quiet\<lparr>requested := [1], logged := [ERROR]\<rparr>)"
  using short_read_swallowed [of 2 "answering [[9]]" "[9]" "quiet\<lparr>requested := [2]\<rparr>"
      new_handler new_handler quiet "[]" "quiet\<lparr>requested := [1]\<rparr>"]
  by (simp add: iread_def answering_def quiet_def new_handler_def logger_def)

subsection \<open>Burst mode\<close>

lemma step_deferred:
  assumes "load_burst h" "deferred c"
  shows "step c (h, e) =
     (h\<lparr>burst_buffer := burst_buffer h @ payload c,
        input_queue_size := input_queue_size h + count_list [c] GetAck\<rparr>, e)"
  using assms by (cases c) (auto simp: priv_send_def get_ack_def split: sum.splits)

lemma run_deferred:
  assumes "load_burst h" "list_all deferred cs"
  shows "run cs (h, e) =
     (h\<lparr>burst_buffer := burst_buffer h @ concat (map payload cs),
        input_queue_size := input_queue_size h + count_list cs GetAck\<rparr>, e)"
  using assms
proof (induction cs arbitrary: h)
  case Nil
  then show ?case by (simp add: run_def)
next
  case (Cons c cs)
  let ?h1 = "h\<lparr>burst_buffer := burst_buffer h @ payload c,
        input_queue_size := input_queue_size h + count_list [c] GetAck\<rparr>"
  have s: "step c (h, e) = (?h1, e)"
    using Cons.prems by (simp add: step_deferred)
  have "run (c # cs) (h, e) = run cs (?h1, e)"
    by (simp add: run_def s)
  also have "\<dots> = (?h1\<lparr>burst_buffer := burst_buffer ?h1 @ concat (map payload cs),
        input_queue_size := input_queue_size ?h1 + count_list cs GetAck\<rparr>, e)"
    using Cons.prems by (intro Cons.IH) simp_all
  finally show ?case by simp
qed

lemma send_burst_eq:
  "send_burst (h, e) =
     (Inr (map uint (take (input_queue_size h) (chunk 0 e))),
      h\<lparr>burst_buffer := [], load_burst := False, input_queue_size := 0\<rparr>,
      e\<lparr>written := written e @ [burst_buffer h],
        requested := requested e @ [input_queue_size h],
        incoming := tl (incoming e)\<rparr>)"
  by (cases "incoming e") (simp_all add: send_burst_def iwrite_def iread_def chunk_def Let_def)

text \<open>
  C7, as the code has it. While burst mode is on, a sequence of \<^verbatim>\<open>_send\<close> and
  \<^verbatim>\<open>get_ack\<close> calls leaves the transport untouched, appends the packets of the
  sends to the buffer in order and adds the number of \<^verbatim>\<open>get_ack\<close> calls to the
  counter, each \<^verbatim>\<open>get_ack\<close> returning 1 (SUCCESS). \<^verbatim>\<open>send_burst\<close> then makes one
  write, of the whole buffer, clears the buffer, turns burst mode off, makes
  one read, of as many bytes as the counter holds, resets the counter and
  returns the bytes received as integers, in order. There are at most as many
  as the counter held, and exactly as many when the transport delivers them;
  a short read returns fewer.
\<close>

theorem burst_then_flush:
  assumes "load_burst h" and "list_all deferred cs"
  shows "run cs (h, e) =
           (h\<lparr>burst_buffer := burst_buffer h @ concat (map payload cs),
              input_queue_size := input_queue_size h + count_list cs GetAck\<rparr>, e)
    \<and> (packet_of v sz = Inr packet \<longrightarrow>
         priv_send v sz (h, e) = (Inr (), h\<lparr>burst_buffer := burst_buffer h @ packet\<rparr>, e))
    \<and> get_ack (h, e) = (Inr 1, h\<lparr>input_queue_size := input_queue_size h + 1\<rparr>, e)
    \<and> send_burst (run cs (h, e)) =
           (Inr (map uint (take (input_queue_size h + count_list cs GetAck) (chunk 0 e))),
            h\<lparr>burst_buffer := [], load_burst := False, input_queue_size := 0\<rparr>,
            e\<lparr>written := written e @ [burst_buffer h @ concat (map payload cs)],
              requested := requested e @ [input_queue_size h + count_list cs GetAck],
              incoming := tl (incoming e)\<rparr>)
    \<and> length (take (input_queue_size h + count_list cs GetAck) (chunk 0 e))
         \<le> input_queue_size h + count_list cs GetAck
    \<and> (input_queue_size h + count_list cs GetAck \<le> length (chunk 0 e) \<longrightarrow>
         length (take (input_queue_size h + count_list cs GetAck) (chunk 0 e))
           = input_queue_size h + count_list cs GetAck)"
proof -
  have r: "run cs (h, e) =
           (h\<lparr>burst_buffer := burst_buffer h @ concat (map payload cs),
              input_queue_size := input_queue_size h + count_list cs GetAck\<rparr>, e)"
    using assms by (rule run_deferred)
  have g: "get_ack (h, e) = (Inr 1, h\<lparr>input_queue_size := input_queue_size h + 1\<rparr>, e)"
    using assms(1) by (simp add: get_ack_def)
  have a: "packet_of v sz = Inr packet \<longrightarrow>
         priv_send v sz (h, e) = (Inr (), h\<lparr>burst_buffer := burst_buffer h @ packet\<rparr>, e)"
    using assms(1) by (simp add: priv_send_def)
  have f: "send_burst (run cs (h, e)) =
           (Inr (map uint (take (input_queue_size h + count_list cs GetAck) (chunk 0 e))),
            h\<lparr>burst_buffer := [], load_burst := False, input_queue_size := 0\<rparr>,
            e\<lparr>written := written e @ [burst_buffer h @ concat (map payload cs)],
              requested := requested e @ [input_queue_size h + count_list cs GetAck],
              incoming := tl (incoming e)\<rparr>)"
    by (simp add: r send_burst_eq)
  from r a g f show ?thesis by simp
qed

theorem burst_then_flush_witness:
  "load_burst bursting
   \<and> list_all deferred
        [Send (Num 5) None, GetAck, Send (Num 300) None, GetAck, Send (Num 70000) None, GetAck]
   \<and> send_burst (run
        [Send (Num 5) None, GetAck, Send (Num 300) None, GetAck, Send (Num 70000) None, GetAck]
        (bursting, answering [[1, 1, 2]]))
       = (Inr [1, 1, 2], new_handler, quiet\<lparr>written := [[5, 44, 1, 112, 17, 1, 0]], requested := [3]\<rparr>)"
proof -
  let ?cs = "[Send (Num 5) None, GetAck, Send (Num 300) None, GetAck, Send (Num 70000) None, GetAck]"
  have b: "load_burst bursting"
    by (simp add: bursting_def)
  have d: "list_all deferred ?cs"
    by simp
  have p: "concat (map payload ?cs) = [5, 44, 1, 112, 17, 1, 0]"
    by (simp add: packet_of_def auto_size_def priv_get_integer_type_def pack_def eval_nat_numeral)
  have c: "count_list ?cs GetAck = 3"
    by simp
  have "send_burst (run ?cs (bursting, answering [[1, 1, 2]])) =
           (Inr (map uint (take (input_queue_size bursting + count_list ?cs GetAck)
                   (chunk 0 (answering [[1, 1, 2]])))),
            bursting\<lparr>burst_buffer := [], load_burst := False, input_queue_size := 0\<rparr>,
            (answering [[1, 1, 2]])\<lparr>written := written (answering [[1, 1, 2]])
                  @ [burst_buffer bursting @ concat (map payload ?cs)],
              requested := requested (answering [[1, 1, 2]])
                  @ [input_queue_size bursting + count_list ?cs GetAck],
              incoming := tl (incoming (answering [[1, 1, 2]]))\<rparr>)"
    using burst_then_flush [OF b d, of "answering [[1, 1, 2]]"] by blast
  then have "send_burst (run ?cs (bursting, answering [[1, 1, 2]]))
       = (Inr [1, 1, 2], new_handler, quiet\<lparr>written := [[5, 44, 1, 112, 17, 1, 0]], requested := [3]\<rparr>)"
    unfolding p c by (simp add: bursting_def new_handler_def answering_def quiet_def chunk_def)
  with b d show ?thesis by blast
qed

text \<open>
  The claim as the spec states it fails: one acknowledgment is deferred, the
  peer is silent, and \<^verbatim>\<open>send_burst\<close> returns no byte at all.
\<close>

theorem flush_returns_fewer:
  "fst (send_burst (run [Send (Num 5) None, GetAck] (bursting, quiet))) = Inr []
   \<and> input_queue_size (fst (run [Send (Num 5) None, GetAck] (bursting, quiet))) = 1"
  by (simp add: run_def priv_send_def get_ack_def bursting_def new_handler_def packet_of_def
      auto_size_def priv_get_integer_type_def pack_def send_burst_def quiet_def iwrite_def
      iread_def)

lemma step_burst_inv:
  assumes "burst_inv h" "c \<noteq> SetLoadBurst False"
  shows "burst_inv (fst (step c (h, e)))"
proof (cases c)
  case (Send v sz)
  with assms(1) show ?thesis
    by (auto simp: burst_inv_def priv_send_def split: sum.splits)
next
  case GetAck
  with assms(1) show ?thesis
    by (auto simp: burst_inv_def get_ack_def split: sum.splits prod.splits)
next
  case SendBurst
  then show ?thesis by (simp add: burst_inv_def send_burst_eq)
next
  case (SetLoadBurst b)
  with assms show ?thesis by (simp add: burst_inv_def)
qed

lemma run_burst_inv:
  assumes "burst_inv h" "SetLoadBurst False \<notin> set cs"
  shows "burst_inv (fst (run cs (h, e)))"
  using assms
proof (induction cs arbitrary: h e)
  case Nil
  then show ?case by (simp add: run_def)
next
  case (Cons c cs)
  obtain h1 e1 where s: "step c (h, e) = (h1, e1)" by (cases "step c (h, e)")
  have "burst_inv h1"
    using step_burst_inv [of h c e] Cons.prems s by auto
  then have "burst_inv (fst (run cs (h1, e1)))"
    using Cons.prems by (intro Cons.IH) auto
  then show ?case by (simp add: run_def s)
qed

lemma step_keeps:
  assumes "c \<noteq> SendBurst"
  shows "(\<exists>more. burst_buffer (fst (step c (h, e))) = burst_buffer h @ more)
         \<and> input_queue_size h \<le> input_queue_size (fst (step c (h, e)))"
  using assms
  by (cases c) (auto simp: priv_send_def get_ack_def split: sum.splits prod.splits)

text \<open>
  C2, as the code has it. A new handler has an empty buffer and a zero counter.
  From a state where the buffer and the counter are empty and zero or burst
  mode is on, every sequence of \<^verbatim>\<open>_send\<close>, \<^verbatim>\<open>get_ack\<close> and \<^verbatim>\<open>send_burst\<close> calls and
  of assignments of \<^verbatim>\<open>True\<close> to \<^verbatim>\<open>load_burst\<close> ends in such a state: buffer and
  counter are non-empty and non-zero only while burst mode is on.
  \<^verbatim>\<open>send_burst\<close> resets both and turns the mode off; no other call resets
  either (the buffer only grows, the counter never decreases); and assigning
  \<^verbatim>\<open>False\<close> to \<^verbatim>\<open>load_burst\<close> leaves both as they are.
\<close>

theorem burst_state_invariant:
  assumes "burst_inv h" and "SetLoadBurst False \<notin> set cs"
  shows "burst_inv new_handler
    \<and> burst_inv (fst (run cs (h, e)))
    \<and> (burst_buffer (fst (step SendBurst (g, f))) = []
         \<and> input_queue_size (fst (step SendBurst (g, f))) = 0
         \<and> \<not> load_burst (fst (step SendBurst (g, f))))
    \<and> (\<forall>c. c \<noteq> SendBurst \<longrightarrow>
          (\<exists>more. burst_buffer (fst (step c (g, f))) = burst_buffer g @ more)
          \<and> input_queue_size g \<le> input_queue_size (fst (step c (g, f))))
    \<and> (burst_buffer (fst (step (SetLoadBurst False) (g, f))) = burst_buffer g
         \<and> input_queue_size (fst (step (SetLoadBurst False) (g, f))) = input_queue_size g)"
proof -
  have a: "burst_inv new_handler"
    by (simp add: burst_inv_def new_handler_def)
  have b: "burst_inv (fst (run cs (h, e)))"
    using assms by (rule run_burst_inv)
  have c: "burst_buffer (fst (step SendBurst (g, f))) = []
         \<and> input_queue_size (fst (step SendBurst (g, f))) = 0
         \<and> \<not> load_burst (fst (step SendBurst (g, f)))"
    by (simp add: send_burst_eq)
  have d: "\<forall>c. c \<noteq> SendBurst \<longrightarrow>
          (\<exists>more. burst_buffer (fst (step c (g, f))) = burst_buffer g @ more)
          \<and> input_queue_size g \<le> input_queue_size (fst (step c (g, f)))"
    using step_keeps by blast
  have e: "burst_buffer (fst (step (SetLoadBurst False) (g, f))) = burst_buffer g
         \<and> input_queue_size (fst (step (SetLoadBurst False) (g, f))) = input_queue_size g"
    by simp
  from a b c d e show ?thesis by blast
qed

theorem burst_state_invariant_witness:
  "burst_inv new_handler
   \<and> SetLoadBurst False \<notin> set [SetLoadBurst True, Send (Num 5) None, GetAck, SendBurst, GetAck]
   \<and> burst_inv (fst (run [SetLoadBurst True, Send (Num 5) None, GetAck, SendBurst, GetAck]
        (new_handler, quiet)))
   \<and> fst (run [SetLoadBurst True, Send (Num 5) None, GetAck, SendBurst, GetAck]
        (new_handler, quiet)) = new_handler"
proof -
  let ?cs = "[SetLoadBurst True, Send (Num 5) None, GetAck, SendBurst, GetAck]"
  have i: "burst_inv new_handler"
    by (simp add: burst_inv_def new_handler_def)
  have n: "SetLoadBurst False \<notin> set ?cs"
    by simp
  have r: "fst (run ?cs (new_handler, quiet)) = new_handler"
    by (simp add: run_def priv_send_def get_ack_def new_handler_def packet_of_def auto_size_def
        priv_get_integer_type_def pack_def send_burst_def iwrite_def iread_def quiet_def unpack_def)
  have "burst_inv (fst (run ?cs (new_handler, quiet)))"
    using burst_state_invariant [OF i n, of quiet new_handler quiet] by blast
  with i n r show ?thesis by blast
qed

text \<open>
  The claim as the spec states it fails: burst mode is turned off from outside
  after one send and one acknowledgment, and the buffer and the counter keep
  what they held.
\<close>

theorem burst_state_outlives_mode:
  "\<not> load_burst (fst (run [SetLoadBurst True, Send (Num 5) None, GetAck, SetLoadBurst False]
        (new_handler, quiet)))
   \<and> burst_buffer (fst (run [SetLoadBurst True, Send (Num 5) None, GetAck, SetLoadBurst False]
        (new_handler, quiet))) = [5]
   \<and> input_queue_size (fst (run [SetLoadBurst True, Send (Num 5) None, GetAck, SetLoadBurst False]
        (new_handler, quiet))) = 1"
  by (simp add: run_def priv_send_def get_ack_def new_handler_def packet_of_def auto_size_def
      priv_get_integer_type_def pack_def)

subsection \<open>Connection\<close>

text \<open>The definitions that a run on a concrete input unfolds.\<close>

lemmas eval_defs =
  get_ack_def priv_send_def send_def packet_of_def auto_size_def priv_get_integer_type_def
  pack_def unpack_def priv_receive_def send_burst_def iwrite_def iread_def logger_def
  and_then_def Serial_def serial_open_def close_def readline_decode_def get_version_def
  recognized_def connect_def disconnect_def reconnect_def new_handler_def init_def
  read_bulk_flash_def write_bulk_flash_def slice_to_def run_def cp0_def quiet_def
  answering_def bursting_def chunk_def Let_def







text \<open>
  C4 does not hold of the code. A handler connected to \<^verbatim>\<open>/dev/ttyUSB7\<close> at 9600
  baud with a timeout of 2 s is reconnected with no argument. \<^verbatim>\<open>reconnect\<close>
  builds a \<^verbatim>\<open>Serial\<close> from the previous settings and then calls
  \<^verbatim>\<open>self.connect()\<close>, which replaces it: the handler ends on the autodetected
  port at 1000000 baud with a timeout of 1 s.
\<close>

theorem reconnect_uses_defaults:
  "interface (fst (snd (init cp0 (Some ''/dev/ttyUSB7'') 9600 2 quiet)))
     = \<lparr>port = Some ''/dev/ttyUSB7'', baudrate = 9600, timeout = Some 2, is_open = True\<rparr>
   \<and> fst (reconnect cp0 None None None (snd (init cp0 (Some ''/dev/ttyUSB7'') 9600 2 quiet)))
     = Inr ()
   \<and> interface (fst (snd (reconnect cp0 None None None
        (snd (init cp0 (Some ''/dev/ttyUSB7'') 9600 2 quiet)))))
     = \<lparr>port = Some ''/dev/ttyACM0'', baudrate = 1000000, timeout = Some 1, is_open = True\<rparr>"
  by (simp add: eval_defs)

subsection \<open>Bulk flash\<close>

text \<open>
  C9 does not hold of the code. For every page, every \<open>numbytes\<close> and every
  state, \<^verbatim>\<open>read_bulk_flash\<close> raises \<^verbatim>\<open>AttributeError\<close> at its first statement,
  \<^verbatim>\<open>self.send(CP.FLASH)\<close>: no length is sent, nothing is read and no bytes are
  returned. So \<^verbatim>\<open>read_bulk_flash(page, 5)\<close> on a connected handler whose peer
  holds six bytes ready requests none of them.
\<close>

theorem read_bulk_flash_unbound_send:
  "read_bulk_flash cp page numbytes (h, e) = (Inl AttributeError, h, e)
   \<and> read_bulk_flash cp0 0 5 (connected, answering [[10, 20, 30, 40, 50, 60], [1]])
       = (Inl AttributeError, connected, answering [[10, 20, 30, 40, 50, 60], [1]])"
  by (simp add: read_bulk_flash_def send_def and_then_def)

text \<open>
  C1 does not hold of the code. For every page, every byte string and every
  state, \<^verbatim>\<open>write_bulk_flash\<close> logs its message and raises \<^verbatim>\<open>AttributeError\<close> at
  \<^verbatim>\<open>self.send(CP.FLASH)\<close>: no command and no data are written, no
  acknowledgment is read, nothing is read back and nothing compared. So
  \<^verbatim>\<open>write_bulk_flash(0, b"AB")\<close> on a connected handler whose peer would echo
  the data raises, and it is not the verification that fails.
\<close>

theorem write_bulk_flash_unbound_send:
  "write_bulk_flash cp page (BytesData bs) (h, e) = (Inl AttributeError, h, logger INFO e)
   \<and> write_bulk_flash cp0 0 (BytesData [65, 66]) (connected, answering [[1], [65, 66], [1]])
       = (Inl AttributeError, connected, (answering [[1], [65, 66], [1]])\<lparr>logged := [INFO]\<rparr>)"
  by (simp add: write_bulk_flash_def send_def and_then_def Let_def logger_def answering_def
      quiet_def)

end
